theory Spec2Isabelle
  imports Complex_Main "HOL-Library.AList" "HOL-Library.Word"
begin

section \<open>JavaScript values\<close>

text \<open>
  The node handles JavaScript values: message payloads, command objects, frames.
  They are modelled by a tree datatype. Numbers are exact integers (milliseconds,
  counters, status codes); strings are lists of 8-bit characters; a \<open>Buffer\<close> is a
  list of bytes; an object is the list of its own enumerable properties in
  enumeration order. Doubles, NaN, cyclic objects and functions are outside the model.
\<close>

type_synonym byte = "8 word"

datatype jsval =
    JUndefined
  | JNull
  | JBool bool
  | JNum int
  | JStr string
  | JBuffer "byte list"
  | JArr "jsval list"
  | JObj "(string \<times> jsval) list"

fun js_truthy :: "jsval \<Rightarrow> bool" where
  "js_truthy JUndefined = False"
| "js_truthy JNull = False"
| "js_truthy (JBool b) = b"
| "js_truthy (JNum n) = (n \<noteq> 0)"
| "js_truthy (JStr s) = (s \<noteq> [])"
| "js_truthy (JBuffer bs) = True"
| "js_truthy (JArr xs) = True"
| "js_truthy (JObj kvs) = True"

fun js_typeof :: "jsval \<Rightarrow> string" where
  "js_typeof JUndefined = ''undefined''"
| "js_typeof JNull = ''object''"
| "js_typeof (JBool b) = ''boolean''"
| "js_typeof (JNum n) = ''number''"
| "js_typeof (JStr s) = ''string''"
| "js_typeof (JBuffer bs) = ''object''"
| "js_typeof (JArr xs) = ''object''"
| "js_typeof (JObj kvs) = ''object''"

fun isBuffer :: "jsval \<Rightarrow> bool" where
  "isBuffer (JBuffer bs) = True"
| "isBuffer v = False"

text \<open>\<^verbatim>\<open>function isObject(v) { return v && typeof v === 'object' && !Buffer.isBuffer(v); }\<close>\<close>

definition isObject :: "jsval \<Rightarrow> bool" where
  "isObject v = (js_truthy v \<and> js_typeof v = ''object'' \<and> \<not> isBuffer v)"

text \<open>Property access \<^verbatim>\<open>v.k\<close>; a missing property and a property of a non-object read \<open>undefined\<close>.\<close>

fun field :: "jsval \<Rightarrow> string \<Rightarrow> jsval" where
  "field (JObj kvs) k = (case map_of kvs k of Some v \<Rightarrow> v | None \<Rightarrow> JUndefined)"
| "field v k = JUndefined"

subsection \<open>Decimal numerals and \<^verbatim>\<open>JSON.stringify\<close>\<close>

fun show_nat :: "nat \<Rightarrow> string" where
  "show_nat n = (if n < 10 then [''0123456789'' ! n]
                 else show_nat (n div 10) @ [''0123456789'' ! (n mod 10)])"

declare show_nat.simps [simp del]

definition show_int :: "int \<Rightarrow> string" where
  "show_int i = (if i < 0 then CHR ''-'' # show_nat (nat (- i)) else show_nat (nat i))"

fun join_commas :: "string list \<Rightarrow> string" where
  "join_commas [] = []"
| "join_commas [x] = x"
| "join_commas (x # y # ys) = x @ '','' @ join_commas (y # ys)"

text \<open>
  The escapes of \<^verbatim>\<open>JSON.stringify\<close>: the double quote (0x22), the backslash (0x5C),
  the short escapes of the control characters and \<^verbatim>\<open>\u00XX\<close> for the others below 0x20.
\<close>

definition json_escape_char :: "char \<Rightarrow> string" where
  "json_escape_char c =
     (if c = CHR 0x22 then [CHR 0x5C, CHR 0x22]
      else if c = CHR 0x5C then [CHR 0x5C, CHR 0x5C]
      else if c = CHR 0x08 then [CHR 0x5C, CHR ''b'']
      else if c = CHR 0x0C then [CHR 0x5C, CHR ''f'']
      else if c = CHR 0x0A then [CHR 0x5C, CHR ''n'']
      else if c = CHR 0x0D then [CHR 0x5C, CHR ''r'']
      else if c = CHR 0x09 then [CHR 0x5C, CHR ''t'']
      else if (of_char c :: nat) < 32
        then [CHR 0x5C, CHR ''u'', CHR ''0'', CHR ''0'',
              ''0123456789abcdef'' ! (of_char c div 16),
              ''0123456789abcdef'' ! (of_char c mod 16)]
      else [c])"

definition json_quote :: "string \<Rightarrow> string" where
  "json_quote s = CHR 0x22 # concat (map json_escape_char s) @ [CHR 0x22]"

text \<open>
  The compact serialisation (no indentation): \<open>None\<close> is JavaScript's \<open>undefined\<close>
  result. An undefined array element is written \<open>null\<close>, an undefined property is
  left out, a nested Buffer is written through its \<^verbatim>\<open>toJSON\<close>.
\<close>

fun json_serialize :: "jsval \<Rightarrow> string option"
  and json_elements :: "jsval list \<Rightarrow> string list"
  and json_members :: "(string \<times> jsval) list \<Rightarrow> string list" where
  "json_serialize JUndefined = None"
| "json_serialize JNull = Some ''null''"
| "json_serialize (JBool b) = Some (if b then ''true'' else ''false'')"
| "json_serialize (JNum n) = Some (show_int n)"
| "json_serialize (JStr s) = Some (json_quote s)"
| "json_serialize (JBuffer bs) =
     Some (''{'' @ json_quote ''type'' @ '':'' @ json_quote ''Buffer'' @ '',''
           @ json_quote ''data'' @ '':['' @ join_commas (map (\<lambda>b. show_nat (unat b)) bs)
           @ '']}'')"
| "json_serialize (JArr xs) = Some (''['' @ join_commas (json_elements xs) @ '']'')"
| "json_serialize (JObj kvs) = Some (''{'' @ join_commas (json_members kvs) @ ''}'')"
| "json_elements [] = []"
| "json_elements (x # xs) =
     (case json_serialize x of None \<Rightarrow> ''null'' | Some s \<Rightarrow> s) # json_elements xs"
| "json_members [] = []"
| "json_members ((k, v) # kvs) =
     (case json_serialize v of None \<Rightarrow> json_members kvs
      | Some s \<Rightarrow> (json_quote k @ '':'' @ s) # json_members kvs)"

definition JSON_stringify :: "jsval \<Rightarrow> jsval" where
  "JSON_stringify v = (case json_serialize v of None \<Rightarrow> JUndefined | Some s \<Rightarrow> JStr s)"

subsection \<open>Strings: trim, startsWith, endsWith, UTF-8, base64\<close>

text \<open>The white space \<^verbatim>\<open>String.prototype.trim\<close> removes, among the 8-bit characters.\<close>

definition js_space :: "char \<Rightarrow> bool" where
  "js_space c = (c \<in> set [CHR 0x09, CHR 0x0A, CHR 0x0B, CHR 0x0C, CHR 0x0D, CHR 0x20, CHR 0xA0])"

definition trim :: "string \<Rightarrow> string" where
  "trim s = rev (dropWhile js_space (rev (dropWhile js_space s)))"

definition startsWith :: "string \<Rightarrow> char \<Rightarrow> bool" where
  "startsWith s c = (case s of [] \<Rightarrow> False | x # xs \<Rightarrow> x = c)"

definition endsWith :: "string \<Rightarrow> char \<Rightarrow> bool" where
  "endsWith s c = (case rev s of [] \<Rightarrow> False | x # xs \<Rightarrow> x = c)"

definition utf8_encode :: "string \<Rightarrow> nat list" where
  "utf8_encode s =
     concat (map (\<lambda>c. let n = (of_char c :: nat)
                       in if n < 128 then [n] else [192 + n div 64, 128 + n mod 64]) s)"

definition b64 :: "nat \<Rightarrow> char" where
  "b64 n = ''ABCDEFGHIJKLMNOPQRSTUVWXYZabcdefghijklmnopqrstuvwxyz0123456789+/'' ! n"

fun base64 :: "nat list \<Rightarrow> string" where
  "base64 [] = []"
| "base64 [a] = [b64 (a div 4), b64 ((a mod 4) * 16), CHR ''='', CHR ''='']"
| "base64 [a, b] =
     [b64 (a div 4), b64 ((a mod 4) * 16 + b div 16), b64 ((b mod 16) * 4), CHR ''='']"
| "base64 (a # b # c # bs) =
     [b64 (a div 4), b64 ((a mod 4) * 16 + b div 16), b64 ((b mod 16) * 4 + c div 64),
      b64 (c mod 64)] @ base64 bs"

section \<open>Node configuration and backoff\<close>

text \<open>
  The editor configuration: every setting may be absent. \<^verbatim>\<open>Number(x || d)\<close> takes the
  default \<open>d\<close> when \<open>x\<close> is absent or 0 (both falsy).

  \<^verbatim>\<open>const pingIntervalDefault = Number(config.pingInterval || 30000);
  const reconnectMin = Math.max(0, Number(config.reconnectMin || 1000));
  const reconnectMax = Math.max(reconnectMin, Number(config.reconnectMax || 30000));
  const timeoutMs = Math.max(0, Number(config.timeoutMs || 10000));\<close>
\<close>

record config =
  cfg_pingInterval :: "int option"
  cfg_reconnectMin :: "int option"
  cfg_reconnectMax :: "int option"
  cfg_timeoutMs :: "int option"

definition num_or :: "int option \<Rightarrow> int \<Rightarrow> int" where
  "num_or x d = (case x of None \<Rightarrow> d | Some n \<Rightarrow> if n = 0 then d else n)"

definition pingIntervalDefault :: "config \<Rightarrow> int" where
  "pingIntervalDefault cfg = num_or (cfg_pingInterval cfg) 30000"

definition reconnectMin :: "config \<Rightarrow> int" where
  "reconnectMin cfg = max 0 (num_or (cfg_reconnectMin cfg) 1000)"

definition reconnectMax :: "config \<Rightarrow> int" where
  "reconnectMax cfg = max (reconnectMin cfg) (num_or (cfg_reconnectMax cfg) 30000)"

definition timeoutMs :: "config \<Rightarrow> int" where
  "timeoutMs cfg = max 0 (num_or (cfg_timeoutMs cfg) 10000)"

text \<open>
  \<^verbatim>\<open>function nextBackoff(attempt) {
      const base = Math.min(reconnectMax, reconnectMin * Math.pow(2, attempt));
      const jitter = Math.floor(base * 0.25 * Math.random());
      return Math.min(reconnectMax, base + jitter);
  }\<close>
  The draw of \<^verbatim>\<open>Math.random()\<close>, a number in \<open>[0, 1)\<close>, is the argument \<open>rnd\<close>.
\<close>

definition backoff_base :: "config \<Rightarrow> nat \<Rightarrow> int" where
  "backoff_base cfg attempt = min (reconnectMax cfg) (reconnectMin cfg * 2 ^ attempt)"

definition nextBackoff :: "config \<Rightarrow> nat \<Rightarrow> real \<Rightarrow> int" where
  "nextBackoff cfg attempt rnd =
     (let base = backoff_base cfg attempt;
          jitter = \<lfloor>real_of_int base * 0.25 * rnd\<rfloor>
      in min (reconnectMax cfg) (base + jitter))"

section \<open>The node's state\<close>

text \<open>
  The options object \<open>opts\<close> of \<^verbatim>\<open>openConnection\<close>: every property may be absent.
\<close>

record conn_opts =
  o_url :: string
  o_protocols :: "string list option"
  o_headers :: "(string \<times> string) list option"
  o_username :: "string option"
  o_password :: "string option"
  o_bearerToken :: "string option"
  o_origin :: "string option"
  o_userAgent :: "string option"
  o_rejectUnauthorized :: "bool option"
  o_ca :: "string option"
  o_cert :: "string option"
  o_key :: "string option"
  o_passphrase :: "string option"
  o_servername :: "string option"
  o_handshakeTimeout :: "int option"
  o_timeoutMs :: "int option"
  o_perMessageDeflate :: "bool option"
  o_proxy :: "string option"
  o_pingInterval :: "int option"

text \<open>The options object handed to the WebSocket constructor; \<open>None\<close> is an absent or undefined property.\<close>

record ws_options =
  wo_headers :: "(string \<times> string) list"
  wo_rejectUnauthorized :: bool
  wo_ca :: "string option"
  wo_cert :: "string option"
  wo_key :: "string option"
  wo_passphrase :: "string option"
  wo_servername :: "string option"
  wo_handshakeTimeout :: "int option"
  wo_perMessageDeflate :: "bool option"
  wo_agent :: "string option"

datatype ready_state = CONNECTING | OPEN | CLOSING | CLOSED

datatype frame = TextFrame string | BinaryFrame "byte list"

text \<open>
  A transport object (\<^verbatim>\<open>new WS(url, protocols, ctorOpts)\<close>): the record its listeners
  close over (\<open>sk_owner\<close>, the variable \<^verbatim>\<open>rec\<close> of \<^verbatim>\<open>connect\<close>), the arguments it was
  constructed with, its \<^verbatim>\<open>readyState\<close>, and what the node asked of it: the frames
  handed to \<^verbatim>\<open>send\<close>, the number of \<^verbatim>\<open>ping()\<close> calls, the \<^verbatim>\<open>close(code, reason)\<close> calls.
\<close>

record socket =
  sk_owner :: nat
  sk_url :: string
  sk_protocols :: "string list option"
  sk_options :: ws_options
  sk_readyState :: ready_state
  sk_sent :: "frame list"
  sk_pings :: nat
  sk_closeCalls :: "(nat \<times> string) list"

text \<open>The object \<^verbatim>\<open>record\<close> of \<^verbatim>\<open>openConnection\<close>; handles are indices into the state's tables.\<close>

record conn =
  c_id :: string
  c_url :: string
  c_protocols :: "string list option"
  c_headers :: "(string \<times> string) list"
  c_opts :: conn_opts
  c_ws :: "nat option"
  c_pingInterval :: int
  c_pingTimer :: "nat option"
  c_reconnectAttempts :: nat
  c_manualClose :: bool
  c_reconnectTimer :: "nat option"

text \<open>A timer made by \<^verbatim>\<open>setTimeout(() => connect(rec), delay)\<close>, pending until it fires or is cleared.\<close>

record timeout_t =
  t_rec :: nat
  t_delay :: int
  t_pending :: bool

text \<open>A timer made by \<^verbatim>\<open>setInterval\<close> in \<^verbatim>\<open>setupPing\<close>, active until it is cleared.\<close>

record interval_t =
  i_rec :: nat
  i_ms :: int
  i_active :: bool

text \<open>A message handed to \<^verbatim>\<open>node.send\<close> (or to the \<^verbatim>\<open>send\<close> of the input handler).\<close>

record out_msg =
  m_websocketId :: string
  m_topic :: string
  m_payload :: jsval
  m_meta :: "(string \<times> jsval) list"

datatype log_entry =
    LogWarn string
  | LogError string
  | LogStatus string string string

text \<open>
  The state of one node: the map \<^verbatim>\<open>connections\<close> (in insertion order, as a JavaScript
  \<^verbatim>\<open>Map\<close> keeps it) from a name to the handle of its record; the records, transports
  and timers ever created, by handle; the messages sent so far; the warnings, errors
  and status updates so far.
\<close>

record node_state =
  connections :: "(string \<times> nat) list"
  recs :: "conn list"
  socks :: "socket list"
  timeouts :: "timeout_t list"
  intervals :: "interval_t list"
  sent_msgs :: "out_msg list"
  node_log :: "log_entry list"

text \<open>
  What the platform decides: \<^verbatim>\<open>JSON.parse\<close> (\<open>None\<close> when it throws), whether
  \<^verbatim>\<open>new WS(url, protocols, opts)\<close> throws (the error's message) and whether
  \<^verbatim>\<open>new HttpsProxyAgent(url)\<close> throws.
\<close>

record platform =
  JSON_parse :: "string \<Rightarrow> jsval option"
  WS_ctor_error :: "string \<Rightarrow> string list option \<Rightarrow> string option"
  proxy_error :: "string \<Rightarrow> string option"

subsection \<open>Primitive effects\<close>

definition upd_rec :: "nat \<Rightarrow> (conn \<Rightarrow> conn) \<Rightarrow> node_state \<Rightarrow> node_state" where
  "upd_rec r f st = st\<lparr>recs := (recs st)[r := f (recs st ! r)]\<rparr>"

definition upd_sock :: "nat \<Rightarrow> (socket \<Rightarrow> socket) \<Rightarrow> node_state \<Rightarrow> node_state" where
  "upd_sock s f st = st\<lparr>socks := (socks st)[s := f (socks st ! s)]\<rparr>"

definition node_send :: "out_msg \<Rightarrow> node_state \<Rightarrow> node_state" where
  "node_send m st = st\<lparr>sent_msgs := sent_msgs st @ [m]\<rparr>"

definition node_warn :: "string \<Rightarrow> node_state \<Rightarrow> node_state" where
  "node_warn t st = st\<lparr>node_log := node_log st @ [LogWarn t]\<rparr>"

definition node_error :: "string \<Rightarrow> node_state \<Rightarrow> node_state" where
  "node_error t st = st\<lparr>node_log := node_log st @ [LogError t]\<rparr>"

definition node_status :: "string \<Rightarrow> string \<Rightarrow> string \<Rightarrow> node_state \<Rightarrow> node_state" where
  "node_status fill shape t st = st\<lparr>node_log := node_log st @ [LogStatus fill shape t]\<rparr>"

text \<open>Clearing a handle that is absent, or that has fired or been cleared, changes nothing.\<close>

definition clearTimeout :: "nat option \<Rightarrow> node_state \<Rightarrow> node_state" where
  "clearTimeout h st =
     (case h of None \<Rightarrow> st
      | Some t \<Rightarrow> st\<lparr>timeouts := (timeouts st)[t := (timeouts st ! t)\<lparr>t_pending := False\<rparr>]\<rparr>)"

definition clearInterval :: "nat option \<Rightarrow> node_state \<Rightarrow> node_state" where
  "clearInterval h st =
     (case h of None \<Rightarrow> st
      | Some i \<Rightarrow> st\<lparr>intervals := (intervals st)[i := (intervals st ! i)\<lparr>i_active := False\<rparr>]\<rparr>)"

text \<open>The new timer's handle is the length of the table before the call.\<close>

definition setTimeout :: "nat \<Rightarrow> int \<Rightarrow> node_state \<Rightarrow> node_state" where
  "setTimeout r d st =
     st\<lparr>timeouts := timeouts st @ [\<lparr>t_rec = r, t_delay = d, t_pending = True\<rparr>]\<rparr>"

definition setInterval :: "nat \<Rightarrow> int \<Rightarrow> node_state \<Rightarrow> node_state" where
  "setInterval r d st =
     st\<lparr>intervals := intervals st @ [\<lparr>i_rec = r, i_ms = d, i_active = True\<rparr>]\<rparr>"

section \<open>The node's functions\<close>

definition truthy_str :: "string option \<Rightarrow> bool" where
  "truthy_str v = (case v of None \<Rightarrow> False | Some s \<Rightarrow> s \<noteq> [])"

text \<open>
  \<^verbatim>\<open>function makeAuthHeader(username, password) {
      const token = Buffer.from(`${username}:${password}`, 'utf8').toString('base64');
      return `Basic ${token}`;
  }\<close>
\<close>

definition makeAuthHeader :: "string \<Rightarrow> string \<Rightarrow> string" where
  "makeAuthHeader username password =
     ''Basic '' @ base64 (utf8_encode (username @ '':'' @ password))"

text \<open>
  \<^verbatim>\<open>function parseMaybeJSON(text) {
      try {
          if (typeof text !== 'string') return text;
          const t = text.trim();
          if (!t) return text;
          if ((t.startsWith('{') && t.endsWith('}')) || (t.startsWith('[') && t.endsWith(']'))) {
              return JSON.parse(t);
          }
      } catch (_) { }
      return text;
  }\<close>
  Its only caller passes a string (\<^verbatim>\<open>data.toString()\<close>).
\<close>

definition parseMaybeJSON :: "platform \<Rightarrow> string \<Rightarrow> jsval" where
  "parseMaybeJSON pf text =
     (let t = trim text
      in if t = [] then JStr text
         else if (startsWith t CHR ''{'' \<and> endsWith t CHR ''}'')
               \<or> (startsWith t CHR ''['' \<and> endsWith t CHR '']'')
           then (case JSON_parse pf t of Some v \<Rightarrow> v | None \<Rightarrow> JStr text)
         else JStr text)"

text \<open>
  \<^verbatim>\<open>function scheduleReconnect(rec) {
      if (rec.manualClose) return; // user closed
      clearTimeout(rec.reconnectTimer);
      const delay = nextBackoff(rec.reconnectAttempts++);
      node.status({ fill: 'yellow', shape: 'ring', text: `reconnect ${rec.id} in ${delay}ms` });
      rec.reconnectTimer = setTimeout(() => connect(rec), delay);
  }\<close>
\<close>

definition scheduleReconnect :: "config \<Rightarrow> real \<Rightarrow> nat \<Rightarrow> node_state \<Rightarrow> node_state" where
  "scheduleReconnect cfg rnd r st =
     (if c_manualClose (recs st ! r) then st
      else
        let st1 = clearTimeout (c_reconnectTimer (recs st ! r)) st;
            delay = nextBackoff cfg (c_reconnectAttempts (recs st1 ! r)) rnd;
            st2 = upd_rec r (\<lambda>c. c\<lparr>c_reconnectAttempts := c_reconnectAttempts c + 1\<rparr>) st1;
            st3 = node_status ''yellow'' ''ring''
                    (''reconnect '' @ c_id (recs st2 ! r) @ '' in '' @ show_int delay @ ''ms'') st2;
            h = length (timeouts st3);
            st4 = setTimeout r delay st3
        in upd_rec r (\<lambda>c. c\<lparr>c_reconnectTimer := Some h\<rparr>) st4)"

text \<open>
  \<^verbatim>\<open>function setupPing(rec) {
      clearInterval(rec.pingTimer);
      if (rec.pingInterval > 0) {
          rec.pingTimer = setInterval(() => { ... }, rec.pingInterval);
      }
  }\<close>
\<close>

definition setupPing :: "nat \<Rightarrow> node_state \<Rightarrow> node_state" where
  "setupPing r st =
     (let st1 = clearInterval (c_pingTimer (recs st ! r)) st
      in if c_pingInterval (recs st1 ! r) > 0
         then let i = length (intervals st1);
                  st2 = setInterval r (c_pingInterval (recs st1 ! r)) st1
              in upd_rec r (\<lambda>c. c\<lparr>c_pingTimer := Some i\<rparr>) st2
         else st1)"

text \<open>
  The interval's callback:
  \<^verbatim>\<open>try {
      if (rec.ws && rec.ws.readyState === WS.OPEN) { rec.ws.ping(); }
  } catch (_) { /* ignore */ }\<close>
\<close>

definition ping_tick :: "nat \<Rightarrow> node_state \<Rightarrow> node_state" where
  "ping_tick r st =
     (case c_ws (recs st ! r) of
        None \<Rightarrow> st
      | Some s \<Rightarrow>
          if sk_readyState (socks st ! s) = OPEN
          then upd_sock s (\<lambda>k. k\<lparr>sk_pings := sk_pings k + 1\<rparr>) st
          else st)"

text \<open>
  \<^verbatim>\<open>function connect(rec, wsOptions) {
      try {
          const ctorOpts = wsOptions || {
              headers: rec.headers,
              rejectUnauthorized: rec.opts.rejectUnauthorized !== false,
              handshakeTimeout: timeoutMs
          };
          const ws = rec.protocols ? new WS(rec.url, rec.protocols, ctorOpts)
                                   : new WS(rec.url, ctorOpts);
          rec.ws = ws;
          node.status({ fill: 'yellow', shape: 'dot', text: `connecting ${rec.id}` });
          ... the listeners ...
      } catch (err) {
          node.error(`connect error for ${rec.id}: ${err.message}`);
          scheduleReconnect(rec);
      }
  }\<close>
  The listeners are the functions \<open>ws_on_open\<close> to \<open>ws_on_unexpected_response\<close> below;
  they reach \<^verbatim>\<open>rec\<close> through \<open>sk_owner\<close> and \<^verbatim>\<open>urlForMeta\<close> through \<open>sk_url\<close>.
\<close>

definition reconnect_options :: "config \<Rightarrow> conn \<Rightarrow> ws_options" where
  "reconnect_options cfg rc =
     \<lparr>wo_headers = c_headers rc,
      wo_rejectUnauthorized = (o_rejectUnauthorized (c_opts rc) \<noteq> Some False),
      wo_ca = None, wo_cert = None, wo_key = None, wo_passphrase = None,
      wo_servername = None,
      wo_handshakeTimeout = Some (timeoutMs cfg),
      wo_perMessageDeflate = None,
      wo_agent = None\<rparr>"

definition connect ::
  "config \<Rightarrow> platform \<Rightarrow> real \<Rightarrow> nat \<Rightarrow> ws_options option \<Rightarrow> node_state \<Rightarrow> node_state" where
  "connect cfg pf rnd r wsOptions st =
     (let rc = recs st ! r;
          ctorOpts = (case wsOptions of Some w \<Rightarrow> w | None \<Rightarrow> reconnect_options cfg rc)
      in case WS_ctor_error pf (c_url rc) (c_protocols rc) of
           None \<Rightarrow>
             let s = length (socks st);
                 st1 = st\<lparr>socks := socks st @
                         [\<lparr>sk_owner = r, sk_url = c_url rc, sk_protocols = c_protocols rc,
                           sk_options = ctorOpts, sk_readyState = CONNECTING, sk_sent = [],
                           sk_pings = 0, sk_closeCalls = []\<rparr>]\<rparr>;
                 st2 = upd_rec r (\<lambda>c. c\<lparr>c_ws := Some s\<rparr>) st1
             in node_status ''yellow'' ''dot'' (''connecting '' @ c_id rc) st2
         | Some message \<Rightarrow>
             scheduleReconnect cfg rnd r
               (node_error (''connect error for '' @ c_id rc @ '': '' @ message) st))"

subsection \<open>The transport's listeners\<close>

text \<open>
  \<^verbatim>\<open>ws.on('open', () => {
      rec.reconnectAttempts = 0;
      setupPing(rec);
      node.status({ fill: 'green', shape: 'dot', text: `open ${rec.id}` });
      node.send({ websocketId: rec.id, topic: 'open', payload: true, meta: { url: urlForMeta } });
  });\<close>
\<close>

definition ws_on_open :: "nat \<Rightarrow> node_state \<Rightarrow> node_state" where
  "ws_on_open s st =
     (let r = sk_owner (socks st ! s);
          st1 = upd_rec r (\<lambda>c. c\<lparr>c_reconnectAttempts := 0\<rparr>) st;
          st2 = setupPing r st1;
          st3 = node_status ''green'' ''dot'' (''open '' @ c_id (recs st2 ! r)) st2
      in node_send \<lparr>m_websocketId = c_id (recs st3 ! r), m_topic = ''open'',
                     m_payload = JBool True,
                     m_meta = [(''url'', JStr (sk_url (socks st3 ! s)))]\<rparr> st3)"

text \<open>
  The data of a \<^verbatim>\<open>message\<close> event, as the transport hands it over: a Buffer or a string.
  \<^verbatim>\<open>Buffer.from\<close> copies a Buffer and encodes a string as UTF-8; \<^verbatim>\<open>toString()\<close> of a
  string is the string, and a Buffer is never sent there by the listener.

  \<^verbatim>\<open>ws.on('message', (data, isBinary) => {
      const payload = isBinary || Buffer.isBuffer(data) ? Buffer.from(data) : parseMaybeJSON(data.toString());
      node.send({ websocketId: rec.id, topic: 'message', payload, meta: { url: urlForMeta } });
  });\<close>
\<close>

datatype ws_data = DataBuffer "byte list" | DataString string

fun data_isBuffer :: "ws_data \<Rightarrow> bool" where
  "data_isBuffer (DataBuffer bs) = True"
| "data_isBuffer (DataString t) = False"

fun Buffer_from :: "ws_data \<Rightarrow> byte list" where
  "Buffer_from (DataBuffer bs) = bs"
| "Buffer_from (DataString t) = map of_nat (utf8_encode t)"

fun data_toString :: "ws_data \<Rightarrow> string" where
  "data_toString (DataString t) = t"
| "data_toString (DataBuffer bs) = map (\<lambda>b. char_of (unat b)) bs"

definition message_payload :: "platform \<Rightarrow> ws_data \<Rightarrow> bool \<Rightarrow> jsval" where
  "message_payload pf data isBinary =
     (if isBinary \<or> data_isBuffer data then JBuffer (Buffer_from data)
      else parseMaybeJSON pf (data_toString data))"

definition ws_on_message :: "platform \<Rightarrow> nat \<Rightarrow> ws_data \<Rightarrow> bool \<Rightarrow> node_state \<Rightarrow> node_state" where
  "ws_on_message pf s data isBinary st =
     (let r = sk_owner (socks st ! s)
      in node_send \<lparr>m_websocketId = c_id (recs st ! r), m_topic = ''message'',
                     m_payload = message_payload pf data isBinary,
                     m_meta = [(''url'', JStr (sk_url (socks st ! s)))]\<rparr> st)"

text \<open>
  \<^verbatim>\<open>ws.on('close', (code, reasonBuf) => {
      clearInterval(rec.pingTimer);
      const reason = Buffer.isBuffer(reasonBuf) ? reasonBuf.toString() : String(reasonBuf || '');
      node.send({ websocketId: rec.id, topic: 'close', payload: false, meta: { code, reason, url: urlForMeta } });
      node.status({ fill: rec.manualClose ? 'grey' : 'red', shape: 'ring', text: `closed ${rec.id} (${code})` });
      if (!rec.manualClose) scheduleReconnect(rec);
  });\<close>
  The argument \<open>reason\<close> is the text of the close reason.
\<close>

definition ws_on_close ::
  "config \<Rightarrow> real \<Rightarrow> nat \<Rightarrow> nat \<Rightarrow> string \<Rightarrow> node_state \<Rightarrow> node_state" where
  "ws_on_close cfg rnd s code reason st =
     (let r = sk_owner (socks st ! s);
          st1 = clearInterval (c_pingTimer (recs st ! r)) st;
          st2 = node_send \<lparr>m_websocketId = c_id (recs st1 ! r), m_topic = ''close'',
                           m_payload = JBool False,
                           m_meta = [(''code'', JNum (int code)), (''reason'', JStr reason),
                                     (''url'', JStr (sk_url (socks st1 ! s)))]\<rparr> st1;
          st3 = node_status (if c_manualClose (recs st2 ! r) then ''grey'' else ''red'') ''ring''
                  (''closed '' @ c_id (recs st2 ! r) @ '' ('' @ show_nat code @ '')'') st2
      in if \<not> c_manualClose (recs st3 ! r) then scheduleReconnect cfg rnd r st3 else st3)"

text \<open>
  \<^verbatim>\<open>ws.on('error', (err) => {
      node.send({ websocketId: rec.id, topic: 'error', payload: { message: err.message, code: err.code }, meta: { url: urlForMeta } });
  });\<close>
\<close>

definition ws_on_error :: "nat \<Rightarrow> string \<Rightarrow> string option \<Rightarrow> node_state \<Rightarrow> node_state" where
  "ws_on_error s message code st =
     (let r = sk_owner (socks st ! s)
      in node_send \<lparr>m_websocketId = c_id (recs st ! r), m_topic = ''error'',
                     m_payload = JObj [(''message'', JStr message),
                                       (''code'', case code of None \<Rightarrow> JUndefined | Some c \<Rightarrow> JStr c)],
                     m_meta = [(''url'', JStr (sk_url (socks st ! s)))]\<rparr> st)"

text \<open>
  \<^verbatim>\<open>ws.on('unexpected-response', (req, res) => {
      const chunks = [];
      res.on('data', c => chunks.push(c));
      res.on('end', () => {
          const body = Buffer.concat(chunks).toString('utf8');
          node.send({ websocketId: rec.id, topic: 'error',
              payload: { message: `Unexpected server response: ${res.statusCode}`,
                         statusCode: res.statusCode, headers: res.headers,
                         body: body.slice(0, 2048) },
              meta: { url: rec.url } });
          node.status({ fill: 'red', shape: 'ring', text: `HTTP ${res.statusCode} on ${rec.id}` });
      });
  });\<close>
  The function is the listener of the response's \<^verbatim>\<open>end\<close>; \<open>body\<close> is the text of the
  whole response body.
\<close>

definition ws_on_unexpected_response ::
  "nat \<Rightarrow> nat \<Rightarrow> (string \<times> string) list \<Rightarrow> string \<Rightarrow> node_state \<Rightarrow> node_state" where
  "ws_on_unexpected_response s statusCode headers body st =
     (let r = sk_owner (socks st ! s);
          st1 = node_send
                  \<lparr>m_websocketId = c_id (recs st ! r), m_topic = ''error'',
                   m_payload = JObj
                     [(''message'', JStr (''Unexpected server response: '' @ show_nat statusCode)),
                      (''statusCode'', JNum (int statusCode)),
                      (''headers'', JObj (map (\<lambda>(k, v). (k, JStr v)) headers)),
                      (''body'', JStr (take 2048 body))],
                   m_meta = [(''url'', JStr (c_url (recs st ! r)))]\<rparr> st
      in node_status ''red'' ''ring''
           (''HTTP '' @ show_nat statusCode @ '' on '' @ c_id (recs st1 ! r)) st1)"

subsection \<open>Closing, opening, sending, listing\<close>

text \<open>
  What \<^verbatim>\<open>ws.close(code, reason)\<close> does to a transport that is connecting or open: its
  \<^verbatim>\<open>readyState\<close> becomes \<^verbatim>\<open>CLOSING\<close>; the \<^verbatim>\<open>close\<close> event comes later, from the transport.
\<close>

definition ws_close :: "nat \<Rightarrow> nat \<Rightarrow> string \<Rightarrow> node_state \<Rightarrow> node_state" where
  "ws_close s code reason st =
     upd_sock s (\<lambda>k. k\<lparr>sk_readyState := CLOSING,
                       sk_closeCalls := sk_closeCalls k @ [(code, reason)]\<rparr>) st"

text \<open>
  \<^verbatim>\<open>async function closeConnection(id, { remove = false, silent = false } = {}) {
      const rec = connections.get(id);
      if (!rec) return;
      rec.manualClose = true;
      clearTimeout(rec.reconnectTimer);
      clearInterval(rec.pingTimer);
      try {
          if (rec.ws && (rec.ws.readyState === WS.CONNECTING || rec.ws.readyState === WS.OPEN)) {
              rec.ws.close(1000, 'closed by node-red');
          }
      } catch (_) { }
      if (remove) { connections.delete(id); }
      if (!silent) node.status({ fill: 'grey', shape: 'ring', text: `closed ${id}` });
  }\<close>
  The function has no \<^verbatim>\<open>await\<close> of its own: it runs to its end when called.
\<close>

definition closeConnection :: "string \<Rightarrow> bool \<Rightarrow> bool \<Rightarrow> node_state \<Rightarrow> node_state" where
  "closeConnection ident remove silent st =
     (case map_of (connections st) ident of
        None \<Rightarrow> st
      | Some r \<Rightarrow>
          let st1 = upd_rec r (\<lambda>c. c\<lparr>c_manualClose := True\<rparr>) st;
              st2 = clearTimeout (c_reconnectTimer (recs st1 ! r)) st1;
              st3 = clearInterval (c_pingTimer (recs st2 ! r)) st2;
              st4 = (case c_ws (recs st3 ! r) of
                       None \<Rightarrow> st3
                     | Some s \<Rightarrow>
                         if sk_readyState (socks st3 ! s) = CONNECTING
                            \<or> sk_readyState (socks st3 ! s) = OPEN
                         then ws_close s 1000 ''closed by node-red'' st3
                         else st3);
              st5 = (if remove
                     then st4\<lparr>connections := AList.delete ident (connections st4)\<rparr>
                     else st4)
          in if \<not> silent then node_status ''grey'' ''ring'' (''closed '' @ ident) st5 else st5)"

text \<open>
  The headers of \<^verbatim>\<open>openConnection\<close>:
  \<^verbatim>\<open>const headers = Object.assign({}, opts.headers || {});
  if (opts.username && typeof opts.password === 'string') {
      headers['Authorization'] = makeAuthHeader(opts.username, opts.password);
  }
  if (opts.bearerToken && !headers['Authorization']) {
      headers['Authorization'] = `Bearer ${opts.bearerToken}`;
  }
  if (opts.origin) { headers['Origin'] = opts.origin; }
  if (opts.userAgent) { headers['User-Agent'] = opts.userAgent; }\<close>
\<close>

definition build_headers :: "conn_opts \<Rightarrow> (string \<times> string) list" where
  "build_headers opts =
     (let h0 = (case o_headers opts of None \<Rightarrow> [] | Some h \<Rightarrow> h);
          h1 = (case (o_username opts, o_password opts) of
                  (Some u, Some p) \<Rightarrow>
                    if u \<noteq> [] then AList.update ''Authorization'' (makeAuthHeader u p) h0 else h0
                | _ \<Rightarrow> h0);
          h2 = (case o_bearerToken opts of
                  Some b \<Rightarrow>
                    if b \<noteq> [] \<and> \<not> truthy_str (map_of h1 ''Authorization'')
                    then AList.update ''Authorization'' (''Bearer '' @ b) h1 else h1
                | None \<Rightarrow> h1);
          h3 = (case o_origin opts of
                  Some x \<Rightarrow> if x \<noteq> [] then AList.update ''Origin'' x h2 else h2
                | None \<Rightarrow> h2)
      in case o_userAgent opts of
           Some x \<Rightarrow> if x \<noteq> [] then AList.update ''User-Agent'' x h3 else h3
         | None \<Rightarrow> h3)"

text \<open>
  \<^verbatim>\<open>const wsOptions = {
      headers,
      rejectUnauthorized: opts.rejectUnauthorized !== false,
      ca: opts.ca, cert: opts.cert, key: opts.key,
      passphrase: opts.passphrase, servername: opts.servername,
      handshakeTimeout: Number(opts.handshakeTimeout || opts.timeoutMs || 0) || undefined,
      perMessageDeflate: (typeof opts.perMessageDeflate === 'boolean') ? opts.perMessageDeflate : true
  };\<close>
  The agent is set afterwards, when \<^verbatim>\<open>opts.proxy\<close> is given and the agent can be made.
\<close>

definition create_options :: "conn_opts \<Rightarrow> (string \<times> string) list \<Rightarrow> string option \<Rightarrow> ws_options" where
  "create_options opts headers agent =
     \<lparr>wo_headers = headers,
      wo_rejectUnauthorized = (o_rejectUnauthorized opts \<noteq> Some False),
      wo_ca = o_ca opts, wo_cert = o_cert opts, wo_key = o_key opts,
      wo_passphrase = o_passphrase opts, wo_servername = o_servername opts,
      wo_handshakeTimeout =
        (let t = num_or (o_handshakeTimeout opts) (num_or (o_timeoutMs opts) 0)
         in if t = 0 then None else Some t),
      wo_perMessageDeflate =
        Some (case o_perMessageDeflate opts of Some b \<Rightarrow> b | None \<Rightarrow> True),
      wo_agent = agent\<rparr>"

text \<open>
  \<^verbatim>\<open>async function openConnection(id, opts) {
      const existing = connections.get(id);
      if (existing) { await closeConnection(id, { remove: false, silent: true }); }
      const url = opts.url;
      const protocols = Array.isArray(opts.protocols) ? opts.protocols : undefined;
      ... headers, wsOptions ...
      if (opts.proxy) {
          try { wsOptions.agent = new HttpsProxyAgent(opts.proxy); }
          catch (e) { node.warn(`invalid proxy url for ${id}: ${e.message}`); }
      }
      const record = { id, url, protocols, headers, opts, ws: null,
          pingInterval: Number(opts.pingInterval ?? pingIntervalDefault),
          pingTimer: null, reconnectAttempts: 0, manualClose: false, reconnectTimer: null };
      connections.set(id, record);
      connect(record, wsOptions);
  }\<close>
  The model runs the function as one step.
\<close>

definition openConnection ::
  "config \<Rightarrow> platform \<Rightarrow> real \<Rightarrow> string \<Rightarrow> conn_opts \<Rightarrow> node_state \<Rightarrow> node_state" where
  "openConnection cfg pf rnd ident opts st =
     (let st1 = (case map_of (connections st) ident of
                   Some existing \<Rightarrow> closeConnection ident False True st
                 | None \<Rightarrow> st);
          headers = build_headers opts;
          failure = (if truthy_str (o_proxy opts)
                     then proxy_error pf (case o_proxy opts of Some u \<Rightarrow> u | None \<Rightarrow> [])
                     else None);
          agent = (if truthy_str (o_proxy opts) \<and> failure = None then o_proxy opts else None);
          st2 = (case failure of
                   Some message \<Rightarrow>
                     node_warn (''invalid proxy url for '' @ ident @ '': '' @ message) st1
                 | None \<Rightarrow> st1);
          r = length (recs st2);
          st3 = st2\<lparr>recs := recs st2 @
                   [\<lparr>c_id = ident, c_url = o_url opts, c_protocols = o_protocols opts,
                     c_headers = headers, c_opts = opts, c_ws = None,
                     c_pingInterval = (case o_pingInterval opts of
                                         Some n \<Rightarrow> n | None \<Rightarrow> pingIntervalDefault cfg),
                     c_pingTimer = None, c_reconnectAttempts = 0, c_manualClose = False,
                     c_reconnectTimer = None\<rparr>]\<rparr>;
          st4 = st3\<lparr>connections := AList.update ident r (connections st3)\<rparr>
      in connect cfg pf rnd r (Some (create_options opts headers agent)) st4)"

text \<open>
  What the transport's \<^verbatim>\<open>send(data)\<close> transmits for the data the node hands it: a string
  goes out as a text frame, a Buffer as a binary frame, a number as the text of its
  decimal numeral; \<open>None\<close> is a throw (the text of its message is the platform's and is
  not kept in the log entry of \<open>sendTo\<close>).
\<close>

fun ws_frame :: "jsval \<Rightarrow> frame option" where
  "ws_frame (JStr t) = Some (TextFrame t)"
| "ws_frame (JBuffer bs) = Some (BinaryFrame bs)"
| "ws_frame (JNum n) = Some (TextFrame (show_int n))"
| "ws_frame JUndefined = Some (BinaryFrame [])"
| "ws_frame JNull = Some (BinaryFrame [])"
| "ws_frame (JBool b) = (if b then None else Some (BinaryFrame []))"
| "ws_frame (JArr xs) = None"
| "ws_frame (JObj kvs) = None"

text \<open>
  \<^verbatim>\<open>function sendTo(id, payload) {
      const rec = connections.get(id);
      if (!rec || !rec.ws || rec.ws.readyState !== WS.OPEN) {
          node.warn(`send failed: ${id} not open`);
          return;
      }
      try {
          let data = payload;
          if (isObject(payload)) data = JSON.stringify(payload);
          rec.ws.send(data);
      } catch (err) {
          node.error(`send error for ${id}: ${err.message}`);
      }
  }\<close>
  \<open>open_transport\<close> is the guard: the transport of the entry named \<open>id\<close> when the
  entry exists, has a transport and the transport is open.
\<close>

definition open_transport :: "node_state \<Rightarrow> string \<Rightarrow> nat option" where
  "open_transport st ident =
     (case map_of (connections st) ident of
        None \<Rightarrow> None
      | Some r \<Rightarrow>
          (case c_ws (recs st ! r) of
             None \<Rightarrow> None
           | Some s \<Rightarrow> if sk_readyState (socks st ! s) \<noteq> OPEN then None else Some s))"

definition sendTo :: "string \<Rightarrow> jsval \<Rightarrow> node_state \<Rightarrow> node_state" where
  "sendTo ident payload st =
     (case open_transport st ident of
        None \<Rightarrow> node_warn (''send failed: '' @ ident @ '' not open'') st
      | Some s \<Rightarrow>
          let data = (if isObject payload then JSON_stringify payload else payload)
          in case ws_frame data of
               Some f \<Rightarrow> upd_sock s (\<lambda>k. k\<lparr>sk_sent := sk_sent k @ [f]\<rparr>) st
             | None \<Rightarrow> node_error (''send error for '' @ ident) st)"

text \<open>
  \<^verbatim>\<open>function listState() {
      const out = {};
      for (const [id, rec] of connections.entries()) {
          let state = 'CLOSED';
          const s = rec.ws ? rec.ws.readyState : -1;
          if (s === WS.CONNECTING) state = 'CONNECTING';
          else if (s === WS.OPEN) state = 'OPEN';
          else if (s === WS.CLOSING) state = 'CLOSING';
          out[id] = { url: rec.url, state, reconnectAttempts: rec.reconnectAttempts, pingInterval: rec.pingInterval };
      }
      node.send({ websocketId: 'CMD', topic: 'list', payload: out });
  }\<close>
\<close>

fun state_name :: "ready_state \<Rightarrow> string" where
  "state_name CONNECTING = ''CONNECTING''"
| "state_name OPEN = ''OPEN''"
| "state_name CLOSING = ''CLOSING''"
| "state_name CLOSED = ''CLOSED''"

text \<open>The state of an entry: its transport's \<^verbatim>\<open>readyState\<close>, and closed when it has no transport.\<close>

definition entry_state :: "node_state \<Rightarrow> nat \<Rightarrow> ready_state" where
  "entry_state st r =
     (case c_ws (recs st ! r) of None \<Rightarrow> CLOSED | Some s \<Rightarrow> sk_readyState (socks st ! s))"

definition list_entry :: "node_state \<Rightarrow> nat \<Rightarrow> jsval" where
  "list_entry st r =
     (let rc = recs st ! r
      in JObj [(''url'', JStr (c_url rc)),
               (''state'', JStr (state_name (entry_state st r))),
               (''reconnectAttempts'', JNum (int (c_reconnectAttempts rc))),
               (''pingInterval'', JNum (c_pingInterval rc))])"

definition listState :: "node_state \<Rightarrow> node_state" where
  "listState st =
     node_send \<lparr>m_websocketId = ''CMD'', m_topic = ''list'',
                 m_payload = JObj (map (\<lambda>(ident, r). (ident, list_entry st r)) (connections st)),
                 m_meta = []\<rparr> st"

subsection \<open>The input handler\<close>

text \<open>
  An input message: \<^verbatim>\<open>msg.websocketId\<close> (\<open>None\<close> when it is not a string) and
  \<^verbatim>\<open>msg.payload\<close>. A command is read off the payload's properties; names and addresses
  are strings, and a property of another type than the one a command needs counts as
  absent.
\<close>

record input_msg =
  in_websocketId :: "string option"
  in_payload :: jsval

definition str_field :: "jsval \<Rightarrow> string \<Rightarrow> string option" where
  "str_field v k = (case field v k of JStr t \<Rightarrow> Some t | _ \<Rightarrow> None)"

definition bool_field :: "jsval \<Rightarrow> string \<Rightarrow> bool option" where
  "bool_field v k = (case field v k of JBool b \<Rightarrow> Some b | _ \<Rightarrow> None)"

definition int_field :: "jsval \<Rightarrow> string \<Rightarrow> int option" where
  "int_field v k = (case field v k of JNum n \<Rightarrow> Some n | _ \<Rightarrow> None)"

definition protocols_field :: "jsval \<Rightarrow> string list option" where
  "protocols_field v =
     (case field v ''protocols'' of
        JArr xs \<Rightarrow> Some (concat (map (\<lambda>x. case x of JStr t \<Rightarrow> [t] | _ \<Rightarrow> []) xs))
      | _ \<Rightarrow> None)"

definition headers_field :: "jsval \<Rightarrow> (string \<times> string) list option" where
  "headers_field v =
     (case field v ''headers'' of
        JObj kvs \<Rightarrow> Some (concat (map (\<lambda>(k, x). case x of JStr t \<Rightarrow> [(k, t)] | _ \<Rightarrow> []) kvs))
      | _ \<Rightarrow> None)"

text \<open>
  \<^verbatim>\<open>const opts = { url: cmd.url, protocols: cmd.protocols, headers: cmd.headers,
      username: cmd.username, password: cmd.password,
      rejectUnauthorized: cmd.rejectUnauthorized, pingInterval: cmd.pingInterval };\<close>
\<close>

definition create_opts :: "jsval \<Rightarrow> string \<Rightarrow> conn_opts" where
  "create_opts cmd url =
     \<lparr>o_url = url, o_protocols = protocols_field cmd, o_headers = headers_field cmd,
      o_username = str_field cmd ''username'', o_password = str_field cmd ''password'',
      o_bearerToken = None, o_origin = None, o_userAgent = None,
      o_rejectUnauthorized = bool_field cmd ''rejectUnauthorized'',
      o_ca = None, o_cert = None, o_key = None, o_passphrase = None, o_servername = None,
      o_handshakeTimeout = None, o_timeoutMs = None, o_perMessageDeflate = None,
      o_proxy = None, o_pingInterval = int_field cmd ''pingInterval''\<rparr>"

definition ack :: "string \<Rightarrow> jsval \<Rightarrow> out_msg" where
  "ack topic payload =
     \<lparr>m_websocketId = ''CMD'', m_topic = topic, m_payload = payload, m_meta = []\<rparr>"

text \<open>
  \<^verbatim>\<open>for (const id of Array.from(connections.keys())) {
      await closeConnection(id, { remove, silent });
  }\<close>
\<close>

fun close_each :: "string list \<Rightarrow> bool \<Rightarrow> bool \<Rightarrow> node_state \<Rightarrow> node_state" where
  "close_each [] remove silent st = st"
| "close_each (ident # idents) remove silent st =
     close_each idents remove silent (closeConnection ident remove silent st)"

text \<open>
  \<^verbatim>\<open>node.on('input', async (msg, send, done) => {
      try {
          const wsid = msg.websocketId;
          if (wsid === 'CMD') {
              const cmd = msg.payload || {};
              switch (cmd.action) {
                  case 'create': {
                      if (!cmd.id || !cmd.url) throw new Error('create requires id and url');
                      const opts = { ... };
                      await openConnection(cmd.id, opts);
                      send({ websocketId: 'CMD', topic: 'create', payload: { id: cmd.id, url: cmd.url } });
                      break;
                  }
                  case 'close': {
                      if (!cmd.id) throw new Error('close requires id');
                      await closeConnection(cmd.id, { remove: false });
                      send({ websocketId: 'CMD', topic: 'close', payload: { id: cmd.id } });
                      break;
                  }
                  case 'delete': {
                      if (!cmd.id) throw new Error('delete requires id');
                      await closeConnection(cmd.id, { remove: true });
                      send({ websocketId: 'CMD', topic: 'delete', payload: { id: cmd.id } });
                      break;
                  }
                  case 'closeAll': {
                      for (const id of Array.from(connections.keys())) {
                          await closeConnection(id, { remove: false });
                      }
                      send({ websocketId: 'CMD', topic: 'closeAll', payload: true });
                      break;
                  }
                  case 'list':
                  default:
                      listState();
              }
          } else if (typeof wsid === 'string' && wsid) {
              sendTo(wsid, msg.payload);
          } else {
              node.warn('Missing websocketId (or use websocketId = \"CMD\" for management).');
          }
          done();
      } catch (err) {
          node.error(err.message, msg);
          if (done) done(err);
      }
  });\<close>
  The handler runs as one step; \<open>rnd\<close> is the draw of \<^verbatim>\<open>Math.random()\<close> it may need.
\<close>

definition handle_command :: "config \<Rightarrow> platform \<Rightarrow> real \<Rightarrow> jsval \<Rightarrow> node_state \<Rightarrow> node_state" where
  "handle_command cfg pf rnd cmd st =
     (let action = field cmd ''action'';
          ident = str_field cmd ''id'';
          url = str_field cmd ''url''
      in if action = JStr ''create'' then
           (case (ident, url) of
              (Some i, Some u) \<Rightarrow>
                if i = [] \<or> u = [] then node_error ''create requires id and url'' st
                else node_send (ack ''create'' (JObj [(''id'', JStr i), (''url'', JStr u)]))
                       (openConnection cfg pf rnd i (create_opts cmd u) st)
            | _ \<Rightarrow> node_error ''create requires id and url'' st)
         else if action = JStr ''close'' then
           (case ident of
              Some i \<Rightarrow>
                if i = [] then node_error ''close requires id'' st
                else node_send (ack ''close'' (JObj [(''id'', JStr i)]))
                       (closeConnection i False False st)
            | None \<Rightarrow> node_error ''close requires id'' st)
         else if action = JStr ''delete'' then
           (case ident of
              Some i \<Rightarrow>
                if i = [] then node_error ''delete requires id'' st
                else node_send (ack ''delete'' (JObj [(''id'', JStr i)]))
                       (closeConnection i True False st)
            | None \<Rightarrow> node_error ''delete requires id'' st)
         else if action = JStr ''closeAll'' then
           node_send (ack ''closeAll'' (JBool True))
             (close_each (map fst (connections st)) False False st)
         else listState st)"

definition handle_input :: "config \<Rightarrow> platform \<Rightarrow> real \<Rightarrow> input_msg \<Rightarrow> node_state \<Rightarrow> node_state" where
  "handle_input cfg pf rnd msg st =
     (if in_websocketId msg = Some ''CMD'' then
        handle_command cfg pf rnd
          (if js_truthy (in_payload msg) then in_payload msg else JObj []) st
      else if truthy_str (in_websocketId msg) then
        (case in_websocketId msg of
           Some wsid \<Rightarrow> sendTo wsid (in_payload msg) st
         | None \<Rightarrow> st)
      else node_warn (''Missing websocketId (or use websocketId = '' @ [CHR 0x22] @ ''CMD''
                      @ [CHR 0x22] @ '' for management).'') st)"

text \<open>
  \<^verbatim>\<open>node.on('close', async (removed, done) => {
      try {
          for (const id of Array.from(connections.keys())) {
              await closeConnection(id, { remove: true, silent: true });
          }
      } catch (_) { }
      done();
  });\<close>
\<close>

definition node_on_close :: "node_state \<Rightarrow> node_state" where
  "node_on_close st = close_each (map fst (connections st)) True True st"

section \<open>Events and runs\<close>

text \<open>
  Everything that happens to a node is one of these events: an input message, the
  node's shutdown, a timer firing, or an event of a transport. A transport's
  \<^verbatim>\<open>readyState\<close> is the transport's own: it opens a connecting transport (\<open>WsOpen\<close>), it
  starts closing on its own when the peer or the network ends the connection
  (\<open>WsClosing\<close>, no listener runs), and it emits \<^verbatim>\<open>close\<close> once, when it is closed
  (\<open>WsClose\<close>). An event that cannot happen in the current state (a timer that is not
  pending, \<^verbatim>\<open>open\<close> on a transport that is not connecting, any event of a closed
  transport) leaves the state unchanged.
\<close>

datatype event =
    Input input_msg real
  | NodeClose
  | TimeoutFires nat real
  | IntervalFires nat
  | WsOpen nat
  | WsMessage nat ws_data bool
  | WsClosing nat
  | WsClose nat nat string real
  | WsError nat string "string option"
  | WsUnexpectedResponse nat nat "(string \<times> string) list" string

definition set_readyState :: "nat \<Rightarrow> ready_state \<Rightarrow> node_state \<Rightarrow> node_state" where
  "set_readyState s x st = upd_sock s (\<lambda>k. k\<lparr>sk_readyState := x\<rparr>) st"

fun step :: "config \<Rightarrow> platform \<Rightarrow> event \<Rightarrow> node_state \<Rightarrow> node_state" where
  "step cfg pf (Input msg rnd) st = handle_input cfg pf rnd msg st"
| "step cfg pf NodeClose st = node_on_close st"
| "step cfg pf (TimeoutFires h rnd) st =
     (if h < length (timeouts st) \<and> t_pending (timeouts st ! h)
      then connect cfg pf rnd (t_rec (timeouts st ! h)) None (clearTimeout (Some h) st)
      else st)"
| "step cfg pf (IntervalFires i) st =
     (if i < length (intervals st) \<and> i_active (intervals st ! i)
      then ping_tick (i_rec (intervals st ! i)) st
      else st)"
| "step cfg pf (WsOpen s) st =
     (if s < length (socks st) \<and> sk_readyState (socks st ! s) = CONNECTING
      then ws_on_open s (set_readyState s OPEN st)
      else st)"
| "step cfg pf (WsMessage s data isBinary) st =
     (if s < length (socks st)
         \<and> (sk_readyState (socks st ! s) = OPEN \<or> sk_readyState (socks st ! s) = CLOSING)
      then ws_on_message pf s data isBinary st
      else st)"
| "step cfg pf (WsClosing s) st =
     (if s < length (socks st)
         \<and> (sk_readyState (socks st ! s) = CONNECTING \<or> sk_readyState (socks st ! s) = OPEN)
      then set_readyState s CLOSING st
      else st)"
| "step cfg pf (WsClose s code reason rnd) st =
     (if s < length (socks st) \<and> sk_readyState (socks st ! s) \<noteq> CLOSED
      then ws_on_close cfg rnd s code reason (set_readyState s CLOSED st)
      else st)"
| "step cfg pf (WsError s message code) st =
     (if s < length (socks st) \<and> sk_readyState (socks st ! s) \<noteq> CLOSED
      then ws_on_error s message code st
      else st)"
| "step cfg pf (WsUnexpectedResponse s statusCode headers body) st =
     (if s < length (socks st) \<and> sk_readyState (socks st ! s) = CONNECTING
      then ws_on_unexpected_response s statusCode headers body st
      else st)"

fun run :: "config \<Rightarrow> platform \<Rightarrow> event list \<Rightarrow> node_state \<Rightarrow> node_state" where
  "run cfg pf [] st = st"
| "run cfg pf (e # es) st = run cfg pf es (step cfg pf e st)"

text \<open>
  The node when it is made: no connection, \<^verbatim>\<open>node.status({ fill: 'grey', shape: 'dot', text: 'idle' })\<close>,
  and then the connections of the editor's \<^verbatim>\<open>initialConnections\<close>, opened in turn:
  \<^verbatim>\<open>for (const [id, opts] of Object.entries(parsed)) {
      if (opts && typeof opts.url === 'string') { openConnection(id, opts); }
  }\<close>
\<close>

definition empty_state :: node_state where
  "empty_state =
     \<lparr>connections = [], recs = [], socks = [], timeouts = [], intervals = [],
      sent_msgs = [], node_log = [LogStatus ''grey'' ''dot'' ''idle'']\<rparr>"

fun open_initial ::
  "config \<Rightarrow> platform \<Rightarrow> (string \<times> conn_opts \<times> real) list \<Rightarrow> node_state \<Rightarrow> node_state" where
  "open_initial cfg pf [] st = st"
| "open_initial cfg pf ((ident, opts, rnd) # rest) st =
     open_initial cfg pf rest (openConnection cfg pf rnd ident opts st)"

definition node_init :: "config \<Rightarrow> platform \<Rightarrow> (string \<times> conn_opts \<times> real) list \<Rightarrow> node_state" where
  "node_init cfg pf initial = open_initial cfg pf initial empty_state"

section \<open>Example nodes\<close>

text \<open>
  Concrete configurations, platforms and event sequences on which the theorems below
  are instantiated: the default configuration, a configuration whose minimal delay is
  clamped to 0, and nodes with one or two connections.
\<close>

definition cfg_default :: config where
  "cfg_default =
     \<lparr>cfg_pingInterval = None, cfg_reconnectMin = None, cfg_reconnectMax = None,
      cfg_timeoutMs = None\<rparr>"


definition demo_pf :: platform where
  "demo_pf =
     \<lparr>JSON_parse = (\<lambda>t. None), WS_ctor_error = (\<lambda>u p. None), proxy_error = (\<lambda>u. None)\<rparr>"

definition cmd_create :: "string \<Rightarrow> string \<Rightarrow> event" where
  "cmd_create n u =
     Input \<lparr>in_websocketId = Some ''CMD'',
            in_payload = JObj [(''action'', JStr ''create''), (''id'', JStr n), (''url'', JStr u)]\<rparr> 0"

definition cmd_on :: "string \<Rightarrow> string \<Rightarrow> event" where
  "cmd_on a n =
     Input \<lparr>in_websocketId = Some ''CMD'',
            in_payload = JObj [(''action'', JStr a), (''id'', JStr n)]\<rparr> 0"

definition demo_connecting :: node_state where
  "demo_connecting = run cfg_default demo_pf [cmd_create ''a'' ''ws://x''] empty_state"


definition demo_two_open :: node_state where
  "demo_two_open =
     run cfg_default demo_pf
       [cmd_create ''a'' ''ws://x'', cmd_create ''b'' ''ws://y'', WsOpen 0, WsOpen 1] empty_state"

definition tls_opts :: conn_opts where
  "tls_opts =
     \<lparr>o_url = ''wss://x'', o_protocols = None, o_headers = Some [(''X-Key'', ''k'')],
      o_username = None, o_password = None, o_bearerToken = Some ''tok'', o_origin = None,
      o_userAgent = None, o_rejectUnauthorized = Some False,
      o_ca = Some ''CA'', o_cert = Some ''CERT'', o_key = Some ''KEY'',
      o_passphrase = Some ''secret'', o_servername = Some ''sni'',
      o_handshakeTimeout = Some 5000, o_timeoutMs = None, o_perMessageDeflate = Some False,
      o_proxy = Some ''http://proxy:3128'', o_pingInterval = None\<rparr>"

definition demo_tls_dropped :: node_state where
  "demo_tls_dropped =
     run cfg_default demo_pf [WsClose 0 1006 '''' 0]
       (node_init cfg_default demo_pf [(''t'', tls_opts, 0)])"

section \<open>The backoff delay\<close>









section \<open>Sending\<close>

lemma open_transport_None_iff:
  "open_transport st n = None \<longleftrightarrow>
     (case map_of (connections st) n of None \<Rightarrow> True
      | Some r \<Rightarrow> (case c_ws (recs st ! r) of None \<Rightarrow> True
                   | Some s \<Rightarrow> sk_readyState (socks st ! s) \<noteq> OPEN))"
  by (simp add: open_transport_def split: option.splits)

text \<open>
  Claim C5. A send to a name whose entry is missing, has no transport, or whose
  transport is not open is the early return of \<open>sendTo\<close>: the input handler's step is
  that call, its whole effect is one warning in the log, no transport is touched and
  no message is emitted. The step is a value of the model: nothing is thrown.
\<close>

theorem send_not_open_warns:
  assumes "open_transport st n = None" and "n \<noteq> []" and "n \<noteq> ''CMD''"
  shows "step cfg pf (Input \<lparr>in_websocketId = Some n, in_payload = payload\<rparr> rnd) st
           = sendTo n payload st
       \<and> sendTo n payload st
           = st\<lparr>node_log := node_log st @ [LogWarn (''send failed: '' @ n @ '' not open'')]\<rparr>
       \<and> socks (sendTo n payload st) = socks st
       \<and> sent_msgs (sendTo n payload st) = sent_msgs st"
  using assms by (simp add: handle_input_def truthy_str_def sendTo_def node_warn_def)

theorem send_not_open_warns_witness:
  "open_transport demo_connecting ''a'' = None \<and> open_transport demo_connecting ''zz'' = None
   \<and> map sk_sent (socks (sendTo ''a'' (JStr ''hi'') demo_connecting)) = [[]]
   \<and> last (node_log (sendTo ''a'' (JStr ''hi'') demo_connecting)) = LogWarn ''send failed: a not open''
   \<and> last (node_log (sendTo ''zz'' (JStr ''hi'') demo_connecting)) = LogWarn ''send failed: zz not open''"
proof -
  have a: "open_transport demo_connecting ''a'' = None" by code_simp
  have z: "open_transport demo_connecting ''zz'' = None" by code_simp
  have s: "map sk_sent (socks demo_connecting) = [[]]" by code_simp
  show ?thesis
    using send_not_open_warns [OF a, of cfg_default demo_pf "JStr ''hi''" 0]
          send_not_open_warns [OF z, of cfg_default demo_pf "JStr ''hi''" 0] a z s
    by simp
qed




text \<open>
  Claim C4, at its failing input. With the entries \<open>a\<close> and \<open>b\<close> open, a message
  addressed to \<open>*\<close> (the address the README gives for all connections) reaches neither
  transport: \<open>sendTo\<close> looks for an entry named \<open>*\<close>, finds none and logs a warning.
\<close>

theorem star_is_not_broadcast:
  "open_transport demo_two_open ''a'' = Some 0 \<and> open_transport demo_two_open ''b'' = Some 1
   \<and> map sk_sent (socks (step cfg_default demo_pf
        (Input \<lparr>in_websocketId = Some ''*'', in_payload = JStr ''hi''\<rparr> 0) demo_two_open)) = [[], []]
   \<and> last (node_log (step cfg_default demo_pf
        (Input \<lparr>in_websocketId = Some ''*'', in_payload = JStr ''hi''\<rparr> 0) demo_two_open))
       = LogWarn ''send failed: * not open''"
  by code_simp

section \<open>Inbound frames\<close>

text \<open>
  Claim C7, at its failing input. A text frame that the transport hands over as a
  Buffer with \<open>isBinary = false\<close> takes the binary branch of the listener: it is emitted
  as raw bytes, whatever \<^verbatim>\<open>JSON.parse\<close> would make of its text, and \<open>parseMaybeJSON\<close>
  is not reached.
\<close>

theorem buffer_text_frame_not_decoded:
  "message_payload pf (DataBuffer bs) False = JBuffer bs"
  by (simp add: message_payload_def)

section \<open>Dialling\<close>

text \<open>
  Claim C10. When a pending reconnect timer fires and the transport can be
  constructed, the new transport is made for the record's address and protocols with
  exactly these options: the record's stored headers, its \<open>rejectUnauthorized\<close> flag and
  the node's \<open>timeoutMs\<close> as handshake timeout. The certificate material, the server
  name, the proxy agent, the compression setting and the entry's own handshake timeout
  are absent, whatever the options given at creation were.
\<close>

theorem reconnect_dial_options:
  assumes "h < length (timeouts st)" and "t_pending (timeouts st ! h)"
    and "WS_ctor_error pf (c_url (recs st ! t_rec (timeouts st ! h)))
           (c_protocols (recs st ! t_rec (timeouts st ! h))) = None"
  shows "socks (step cfg pf (TimeoutFires h rnd) st) =
           socks st @
             [\<lparr>sk_owner = t_rec (timeouts st ! h),
               sk_url = c_url (recs st ! t_rec (timeouts st ! h)),
               sk_protocols = c_protocols (recs st ! t_rec (timeouts st ! h)),
               sk_options =
                 \<lparr>wo_headers = c_headers (recs st ! t_rec (timeouts st ! h)),
                  wo_rejectUnauthorized =
                    (o_rejectUnauthorized (c_opts (recs st ! t_rec (timeouts st ! h))) \<noteq> Some False),
                  wo_ca = None, wo_cert = None, wo_key = None, wo_passphrase = None,
                  wo_servername = None,
                  wo_handshakeTimeout = Some (timeoutMs cfg),
                  wo_perMessageDeflate = None,
                  wo_agent = None\<rparr>,
               sk_readyState = CONNECTING, sk_sent = [], sk_pings = 0, sk_closeCalls = []\<rparr>]"
  using assms
  by (simp add: connect_def clearTimeout_def reconnect_options_def upd_rec_def node_status_def
        Let_def)

theorem reconnect_dial_options_witness:
  "0 < length (timeouts demo_tls_dropped) \<and> t_pending (timeouts demo_tls_dropped ! 0)
   \<and> map sk_options (socks (step cfg_default demo_pf (TimeoutFires 0 0) demo_tls_dropped)) =
       [\<lparr>wo_headers = [(''X-Key'', ''k''), (''Authorization'', ''Bearer tok'')],
         wo_rejectUnauthorized = False,
         wo_ca = Some ''CA'', wo_cert = Some ''CERT'', wo_key = Some ''KEY'',
         wo_passphrase = Some ''secret'', wo_servername = Some ''sni'',
         wo_handshakeTimeout = Some 5000, wo_perMessageDeflate = Some False,
         wo_agent = Some ''http://proxy:3128''\<rparr>,
        \<lparr>wo_headers = [(''X-Key'', ''k''), (''Authorization'', ''Bearer tok'')],
         wo_rejectUnauthorized = False,
         wo_ca = None, wo_cert = None, wo_key = None, wo_passphrase = None,
         wo_servername = None,
         wo_handshakeTimeout = Some 10000, wo_perMessageDeflate = None,
         wo_agent = None\<rparr>]"
proof -
  have l: "0 < length (timeouts demo_tls_dropped)" by code_simp
  have p: "t_pending (timeouts demo_tls_dropped ! 0)" by code_simp
  have c: "WS_ctor_error demo_pf (c_url (recs demo_tls_dropped ! t_rec (timeouts demo_tls_dropped ! 0)))
           (c_protocols (recs demo_tls_dropped ! t_rec (timeouts demo_tls_dropped ! 0))) = None"
    by (simp add: demo_pf_def)
  have s: "map sk_options (socks demo_tls_dropped) =
       [\<lparr>wo_headers = [(''X-Key'', ''k''), (''Authorization'', ''Bearer tok'')],
         wo_rejectUnauthorized = False,
         wo_ca = Some ''CA'', wo_cert = Some ''CERT'', wo_key = Some ''KEY'',
         wo_passphrase = Some ''secret'', wo_servername = Some ''sni'',
         wo_handshakeTimeout = Some 5000, wo_perMessageDeflate = Some False,
         wo_agent = Some ''http://proxy:3128''\<rparr>]"
    by code_simp
  have r: "c_headers (recs demo_tls_dropped ! t_rec (timeouts demo_tls_dropped ! 0))
             = [(''X-Key'', ''k''), (''Authorization'', ''Bearer tok'')]"
          "o_rejectUnauthorized (c_opts (recs demo_tls_dropped ! t_rec (timeouts demo_tls_dropped ! 0)))
             = Some False"
    by code_simp+
  have t: "timeoutMs cfg_default = 10000"
    by (simp add: timeoutMs_def num_or_def cfg_default_def)
  show ?thesis
    using reconnect_dial_options [OF l p c, of cfg_default 0] l p s r t by simp
qed

end
